theory Spec2Isabelle
  imports Main
begin

section \<open>JavaScript values and string helpers\<close>

text \<open>
  Request body fields and document fields are JavaScript values. Only the scalar
  values that a JSON body can carry are modelled, numbers as integers (the handlers
  only test a number for being zero); \<open>JUndefined\<close> is a missing field.
  \<open>truthy\<close> is JavaScript's boolean coercion, as used by \<^verbatim>\<open>!email\<close>.
\<close>

datatype jsval = JUndefined | JNull | JBool bool | JNum int | JStr string

fun truthy :: "jsval \<Rightarrow> bool" where
  "truthy JUndefined = False"
| "truthy JNull = False"
| "truthy (JBool b) = b"
| "truthy (JNum n) = (n \<noteq> 0)"
| "truthy (JStr s) = (s \<noteq> [])"

text \<open>
  Header and cookie values are strings or undefined (\<open>None\<close>); the empty string is
  falsy.
\<close>

definition truthyS :: "string option \<Rightarrow> bool" where
  "truthyS t = (case t of None \<Rightarrow> False | Some s \<Rightarrow> s \<noteq> [])"

text \<open>\<^verbatim>\<open>s.startsWith(p)\<close>\<close>

definition startsWith :: "string \<Rightarrow> string \<Rightarrow> bool" where
  "startsWith s p = (take (length p) s = p)"

text \<open>
  \<^verbatim>\<open>s.split(' ')\<close>: cuts at every single space; the result is never empty, and two
  adjacent spaces give an empty piece.
\<close>

fun split_sp :: "string \<Rightarrow> string list" where
  "split_sp [] = [[]]"
| "split_sp (c # cs) =
     (if c = CHR '' '' then [] # split_sp cs
      else (case split_sp cs of [] \<Rightarrow> [[c]] | p # ps \<Rightarrow> (c # p) # ps))"

text \<open>\<^verbatim>\<open>xs[i]\<close>: undefined (\<open>None\<close>) out of range.\<close>

definition at :: "'a list \<Rightarrow> nat \<Rightarrow> 'a option" where
  "at xs i = (if i < length xs then Some (xs ! i) else None)"

text \<open>Interpolation of a possibly undefined string in a template literal.\<close>

definition render :: "string option \<Rightarrow> string" where
  "render v = (case v of None \<Rightarrow> ''undefined'' | Some s \<Rightarrow> s)"

section \<open>Data model\<close>

text \<open>
  The user document. \<open>uid\<close> is the document's \<^verbatim>\<open>_id\<close>. The reset fields and the
  change timestamp are undefined (\<open>None\<close>) or set.
\<close>

record user =
  uid :: nat
  name :: jsval
  email :: jsval
  role :: jsval
  password :: jsval
  passwordConfirm :: jsval
  passwordChangedAt :: "int option"
  passwordResetToken :: "string option"
  passwordResetExpires :: "int option"

text \<open>The object literal that \<^verbatim>\<open>signup\<close> hands to \<^verbatim>\<open>User.create\<close>.\<close>

record new_user =
  n_name :: jsval
  n_email :: jsval
  n_password :: jsval
  n_passwordConfirm :: jsval
  n_role :: jsval

text \<open>An error thrown by a library or by the runtime, named by its class.\<close>

datatype exn = Exn string

record app_error =
  message :: string
  statusCode :: "nat option"
  isOperational :: bool

text \<open>
  Modelled from the spec: \<^verbatim>\<open>utils/appError.js\<close> is not among the sources. The spec
  describes operational errors as "carrying an HTTP status code and a human-readable
  message, distinguished from unexpected/programmer errors". The constructor takes the
  message and the status code; an argument the caller leaves out is undefined
  (\<open>None\<close>), as for every JavaScript call.
\<close>

definition AppError :: "string \<Rightarrow> nat option \<Rightarrow> app_error" where
  "AppError msg code = \<lparr>message = msg, statusCode = code, isOperational = True\<rparr>"

text \<open>What reaches \<^verbatim>\<open>next(err)\<close>: an operational error built here, or a thrown one.\<close>

datatype error = Operational app_error | Thrown exn

text \<open>The payload of a verified token.\<close>

record decoded =
  jwt_id :: nat
  iat :: int

datatype mail_kind = Welcome | PasswordReset

record mail =
  kind :: mail_kind
  rcpt :: user
  url :: string

record cookie_options =
  expires :: int
  httpOnly :: bool
  secure :: bool

text \<open>
  The JSON bodies the handlers write: \<^verbatim>\<open>{status, token, data: {user}}\<close> and
  \<^verbatim>\<open>{status, message}\<close>.
\<close>

datatype json_body = TokenBody string string user | MessageBody string string

record response =
  status :: nat
  cookie :: "(string \<times> string \<times> cookie_options) option"
  body :: json_body

text \<open>
  How a handler ends: \<^verbatim>\<open>next()\<close>, with \<^verbatim>\<open>req.user\<close> and \<^verbatim>\<open>res.locals.user\<close> as
  the handler leaves them; \<^verbatim>\<open>next(err)\<close>; or a response written.
\<close>

datatype outcome = Next "user option" "user option" | NextErr error | Respond response

record request =
  protocol :: string
  host :: "string option"
  authorization :: "string option"
  cookie_jwt :: "string option"
  body_fields :: "(string \<times> jsval) list"
  param_token :: string
  req_user :: "user option"

text \<open>\<^verbatim>\<open>req.body.k\<close>\<close>

definition field :: "request \<Rightarrow> string \<Rightarrow> jsval" where
  "field req k = (case map_of (body_fields req) k of None \<Rightarrow> JUndefined | Some v \<Rightarrow> v)"

text \<open>
  The collaborators the handlers call and the sources do not contain: the process
  environment, the JWT library, the hash, and the methods, validators and hooks of the
  user model (\<^verbatim>\<open>models/userModel.js\<close>) and the mailer (\<^verbatim>\<open>utils/email.js\<close>). They
  are parameters; a call that can reject returns a sum, \<open>Inl\<close> the error thrown.
  \<^item> \<open>jwt_sign now id\<close>: \<^verbatim>\<open>jwt.sign({id}, JWT_SECRET, {expiresIn})\<close> at time \<open>now\<close>;
  \<^item> \<open>jwt_verify now token\<close>: \<^verbatim>\<open>promisify(jwt.verify)(token, JWT_SECRET)\<close>;
  \<^item> \<open>sha256hex\<close>: \<^verbatim>\<open>crypto.createHash('sha256').update(s).digest('hex')\<close>;
  \<^item> \<open>correctPassword candidate stored\<close>: the model's instance method;
  \<^item> \<open>changedPasswordAfter user iat\<close>: the model's instance method;
  \<^item> \<open>randomToken n\<close>: the \<open>n\<close>-th random reset token drawn;
  \<^item> \<open>resetWindow\<close>: the validity window of a reset token, in milliseconds;
  \<^item> \<open>createDoc docs props\<close>: validation, hooks and id allocation of \<^verbatim>\<open>User.create\<close>;
  \<^item> \<open>presave validate doc\<close>: validators (when \<open>validate\<close>) and pre-save hooks of
    \<^verbatim>\<open>doc.save({validateBeforeSave: validate})\<close>;
  \<^item> \<open>deliver mail\<close>: the mail transport, \<open>Some e\<close> when sending fails with \<open>e\<close>.
\<close>

record env =
  NODE_ENV :: string
  JWT_COOKIE_EXPIRES_IN :: int
  jwt_sign :: "int \<Rightarrow> nat \<Rightarrow> string"
  jwt_verify :: "int \<Rightarrow> string \<Rightarrow> exn + decoded"
  sha256hex :: "string \<Rightarrow> string"
  correctPassword :: "jsval \<Rightarrow> jsval \<Rightarrow> exn + bool"
  changedPasswordAfter :: "user \<Rightarrow> int \<Rightarrow> bool"
  randomToken :: "nat \<Rightarrow> string"
  resetWindow :: int
  createDoc :: "user list \<Rightarrow> new_user \<Rightarrow> exn + user"
  presave :: "bool \<Rightarrow> user \<Rightarrow> exn + user"
  deliver :: "mail \<Rightarrow> exn option"

text \<open>
  The state outside a handler: the user collection, the clock read by \<^verbatim>\<open>Date.now()\<close>,
  the number of random tokens drawn so far, and the mails delivered.
\<close>

record world =
  store :: "user list"
  clock :: int
  rng :: nat
  outbox :: "mail list"

section \<open>The store\<close>

text \<open>
  The collection is the list of its documents. A lookup reads it and does not fail
  (the database is taken to be reachable); a write goes through the model's validators
  and hooks, which can reject it.
\<close>

text \<open>\<^verbatim>\<open>User.findOne(filter)\<close>: the first document that matches, or null.\<close>

definition findOne :: "(user \<Rightarrow> bool) \<Rightarrow> user list \<Rightarrow> user option" where
  "findOne P docs = find P docs"

text \<open>\<^verbatim>\<open>User.findById(id)\<close>\<close>

definition findById :: "nat \<Rightarrow> user list \<Rightarrow> user option" where
  "findById i docs = findOne (\<lambda>u. uid u = i) docs"

text \<open>
  \<^verbatim>\<open>await doc.save(opts)\<close>: the validators and hooks run on the document; when they
  accept, the document they return replaces the stored one of the same id and is the
  state of \<open>doc\<close> from then on; when they reject, nothing is written.
\<close>

definition save :: "env \<Rightarrow> bool \<Rightarrow> user \<Rightarrow> world \<Rightarrow> world \<times> (exn + user)" where
  "save e validate doc w =
     (case presave e validate doc of
        Inl x \<Rightarrow> (w, Inl x)
      | Inr doc' \<Rightarrow>
          (w\<lparr>store := map (\<lambda>d. if uid d = uid doc' then doc' else d) (store w)\<rparr>, Inr doc'))"

text \<open>\<^verbatim>\<open>await User.create(props)\<close>: the created document joins the collection.\<close>

definition create :: "env \<Rightarrow> new_user \<Rightarrow> world \<Rightarrow> world \<times> (exn + user)" where
  "create e props w =
     (case createDoc e (store w) props of
        Inl x \<Rightarrow> (w, Inl x)
      | Inr doc \<Rightarrow> (w\<lparr>store := store w @ [doc]\<rparr>, Inr doc))"

text \<open>
  \<^verbatim>\<open>await new Email(user, url).sendWelcome()\<close> and \<^verbatim>\<open>.sendPasswordReset()\<close>: a mail
  that is delivered joins the outbox; a failure is the error thrown.
\<close>

definition sendMail :: "env \<Rightarrow> mail \<Rightarrow> world \<Rightarrow> world \<times> exn option" where
  "sendMail e m w =
     (case deliver e m of
        Some x \<Rightarrow> (w, Some x)
      | None \<Rightarrow> (w\<lparr>outbox := outbox w @ [m]\<rparr>, None))"

text \<open>
  Modelled from the spec: \<^verbatim>\<open>createPasswordResetToken\<close> is a method of
  \<^verbatim>\<open>models/userModel.js\<close>, which is not among the sources. The spec has the store
  "compute a reset token and its hash", the token "stored server-side only as a hash"
  and "time-bounded": a fresh random token is drawn, its hash and its expiry are set on
  the in-memory document, and the raw token is returned.
\<close>

definition createPasswordResetToken :: "env \<Rightarrow> world \<Rightarrow> user \<Rightarrow> string \<times> user \<times> world" where
  "createPasswordResetToken e w u =
     (let resetToken = randomToken e (rng w)
      in (resetToken,
          u\<lparr>passwordResetToken := Some (sha256hex e resetToken),
            passwordResetExpires := Some (clock w + resetWindow e)\<rparr>,
          w\<lparr>rng := Suc (rng w)\<rparr>))"

section \<open>The handlers of authController.js\<close>

text \<open>
  Modelled from the spec: \<^verbatim>\<open>utils/catchAsync.js\<close> is not among the sources. The spec
  calls it "a uniform async-error adapter that forwards thrown/rejected errors to a
  centralized error-response layer": an error thrown in the handler's body reaches
  \<^verbatim>\<open>next\<close> as it is; what the body wrote before throwing stays written.
\<close>

definition catchAsync :: "(env \<Rightarrow> world \<Rightarrow> request \<Rightarrow> world \<times> (exn + outcome))
    \<Rightarrow> env \<Rightarrow> world \<Rightarrow> request \<Rightarrow> world \<times> outcome" where
  "catchAsync fn e w req =
     (case fn e w req of
        (w', Inl x) \<Rightarrow> (w', NextErr (Thrown x))
      | (w', Inr out) \<Rightarrow> (w', out))"

text \<open>\<^verbatim>\<open>next(err)\<close> with one argument.\<close>

definition nextErr :: "app_error \<Rightarrow> outcome" where
  "nextErr err = NextErr (Operational err)"

text \<open>
  \<^verbatim>\<open>next(err, extra)\<close>: Express's \<^verbatim>\<open>next\<close> reads its first argument only.
\<close>

definition nextErr2 :: "app_error \<Rightarrow> nat \<Rightarrow> outcome" where
  "nextErr2 err extra = NextErr (Operational err)"

definition signToken :: "env \<Rightarrow> world \<Rightarrow> nat \<Rightarrow> string" where
  "signToken e w i = jwt_sign e (clock w) i"

definition createSendToken :: "env \<Rightarrow> world \<Rightarrow> user \<Rightarrow> nat \<Rightarrow> outcome" where
  "createSendToken e w u code =
     (let token = signToken e w (uid u);
          cookieOptions =
            \<lparr>expires = clock w + JWT_COOKIE_EXPIRES_IN e * 24 * 60 * 60 * 1000,
             httpOnly = True,
             secure = (NODE_ENV e = ''production'')\<rparr>;
          u' = u\<lparr>password := JUndefined\<rparr>
      in Respond \<lparr>status = code,
                  cookie = Some (''jwt'', token, cookieOptions),
                  body = TokenBody ''success'' token u'\<rparr>)"

text \<open>
  Lines 94 to 102 of \<^verbatim>\<open>protect\<close>: where the token is taken from. Behind a
  truthiness test the value is a string, which \<open>render\<close> returns as it is.
\<close>

definition protect_token :: "request \<Rightarrow> string option" where
  "protect_token req =
     (if truthyS (authorization req) \<and> startsWith (render (authorization req)) ''Bearer''
      then at (split_sp (render (authorization req))) 1
      else if truthyS (cookie_jwt req) then cookie_jwt req
      else None)"

definition protect_body :: "env \<Rightarrow> world \<Rightarrow> request \<Rightarrow> world \<times> (exn + outcome)" where
  "protect_body e w req =
     (let token = protect_token req in
      if \<not> truthyS token then
        (w, Inr (nextErr (AppError ''Authorization failed !. You are not log in !'' (Some 401))))
      else
        (case jwt_verify e (clock w) (render token) of
           Inl x \<Rightarrow> (w, Inl x)
         | Inr d \<Rightarrow>
             (case findById (jwt_id d) (store w) of
                None \<Rightarrow>
                  (w, Inr (nextErr (AppError
                     ''The user belonging to this token no longer exist !'' (Some 401))))
              | Some currentUser \<Rightarrow>
                  if changedPasswordAfter e currentUser (iat d) then
                    (w, Inr (nextErr (AppError
                       ''User recently has changed password, please login again !'' (Some 401))))
                  else (w, Inr (Next (Some currentUser) (Some currentUser))))))"

definition protect :: "env \<Rightarrow> world \<Rightarrow> request \<Rightarrow> world \<times> outcome" where
  "protect = catchAsync protect_body"

text \<open>
  \<^verbatim>\<open>isLoggedIn\<close> is not wrapped by \<^verbatim>\<open>catchAsync\<close>; its own \<^verbatim>\<open>try\<close>/\<^verbatim>\<open>catch\<close> turns
  every error of the verification and of the lookup into a plain \<^verbatim>\<open>next()\<close>.
\<close>

definition isLoggedIn :: "env \<Rightarrow> world \<Rightarrow> request \<Rightarrow> world \<times> outcome" where
  "isLoggedIn e w req =
     (if truthyS (cookie_jwt req) then
        (case jwt_verify e (clock w) (render (cookie_jwt req)) of
           Inl x \<Rightarrow> (w, Next (req_user req) None)
         | Inr d \<Rightarrow>
             (case findById (jwt_id d) (store w) of
                None \<Rightarrow> (w, Next (req_user req) None)
              | Some currentUser \<Rightarrow>
                  if changedPasswordAfter e currentUser (iat d)
                  then (w, Next (req_user req) None)
                  else (w, Next (req_user req) (Some currentUser))))
      else (w, Next (req_user req) None))"

text \<open>The object literal of lines 49 to 55.\<close>

definition signup_fields :: "request \<Rightarrow> new_user" where
  "signup_fields req =
     \<lparr>n_name = field req ''name'',
      n_email = field req ''email'',
      n_password = field req ''password'',
      n_passwordConfirm = field req ''passwordConfirm'',
      n_role = field req ''role''\<rparr>"

definition signup_body :: "env \<Rightarrow> world \<Rightarrow> request \<Rightarrow> world \<times> (exn + outcome)" where
  "signup_body e w req =
     (case create e (signup_fields req) w of
        (w1, Inl x) \<Rightarrow> (w1, Inl x)
      | (w1, Inr newUser) \<Rightarrow>
          (let welcomeUrl = protocol req @ ''://'' @ render (host req) @ ''/me'' in
           case sendMail e \<lparr>kind = Welcome, rcpt = newUser, url = welcomeUrl\<rparr> w1 of
             (w2, Some x) \<Rightarrow> (w2, Inl x)
           | (w2, None) \<Rightarrow> (w2, Inr (createSendToken e w2 newUser 201))))"

definition signup :: "env \<Rightarrow> world \<Rightarrow> request \<Rightarrow> world \<times> outcome" where
  "signup = catchAsync signup_body"

definition login_body :: "env \<Rightarrow> world \<Rightarrow> request \<Rightarrow> world \<times> (exn + outcome)" where
  "login_body e w req =
     (let email' = field req ''email''; password' = field req ''password'' in
      if \<not> truthy email' \<or> \<not> truthy password' then
        (w, Inr (nextErr (AppError ''Please provide email and password !'' (Some 400))))
      else
        (case findOne (\<lambda>u. email u = email') (store w) of
           None \<Rightarrow> (w, Inr (nextErr (AppError ''Incorrect email or password !'' (Some 401))))
         | Some u \<Rightarrow>
             (case correctPassword e password' (password u) of
                Inl x \<Rightarrow> (w, Inl x)
              | Inr ok \<Rightarrow>
                  if \<not> ok then
                    (w, Inr (nextErr (AppError ''Incorrect email or password !'' (Some 401))))
                  else (w, Inr (createSendToken e w u 200)))))"

definition login :: "env \<Rightarrow> world \<Rightarrow> request \<Rightarrow> world \<times> outcome" where
  "login = catchAsync login_body"

definition forgotPassword_body :: "env \<Rightarrow> world \<Rightarrow> request \<Rightarrow> world \<times> (exn + outcome)" where
  "forgotPassword_body e w req =
     (case findOne (\<lambda>u. email u = field req ''email'') (store w) of
        None \<Rightarrow>
          (w, Inr (nextErr (AppError ''There is no user with that email address !'' (Some 404))))
      | Some u \<Rightarrow>
          (case createPasswordResetToken e w u of
             (resetToken, u1, w1) \<Rightarrow>
               (case save e False u1 w1 of
                  (w2, Inl x) \<Rightarrow> (w2, Inl x)
                | (w2, Inr u2) \<Rightarrow>
                    (let resetURL = protocol req @ ''://'' @ render (host req)
                           @ ''/api/v1/users/resetPassword/'' @ resetToken in
                     case sendMail e \<lparr>kind = PasswordReset, rcpt = u2, url = resetURL\<rparr> w2 of
                       (w3, None) \<Rightarrow>
                         (w3, Inr (Respond \<lparr>status = 200, cookie = None,
                            body = MessageBody ''success'' ''Token has been sent to email''\<rparr>))
                     | (w3, Some err) \<Rightarrow>
                         (case save e False
                                 (u2\<lparr>passwordResetToken := None, passwordResetExpires := None\<rparr>) w3 of
                            (w4, Inl x) \<Rightarrow> (w4, Inl x)
                          | (w4, Inr u4) \<Rightarrow>
                              (w4, Inr (nextErr2
                                 (AppError ''There was an error sending email, try again !'' None)
                                 500)))))))"

definition forgotPassword :: "env \<Rightarrow> world \<Rightarrow> request \<Rightarrow> world \<times> outcome" where
  "forgotPassword = catchAsync forgotPassword_body"

text \<open>
  The filter of \<^verbatim>\<open>resetPassword\<close>: the stored hash equals the hash of the token and
  the stored expiry is greater than \<^verbatim>\<open>Date.now()\<close> (\<^verbatim>\<open>$gt\<close>); a document without
  an expiry does not match.
\<close>

definition reset_match :: "string \<Rightarrow> int \<Rightarrow> user \<Rightarrow> bool" where
  "reset_match hashedToken now u =
     (passwordResetToken u = Some hashedToken \<and>
      (case passwordResetExpires u of None \<Rightarrow> False | Some t \<Rightarrow> now < t))"

definition resetPassword_body :: "env \<Rightarrow> world \<Rightarrow> request \<Rightarrow> world \<times> (exn + outcome)" where
  "resetPassword_body e w req =
     (let hashedToken = sha256hex e (param_token req) in
      case findOne (reset_match hashedToken (clock w)) (store w) of
        None \<Rightarrow>
          (w, Inr (nextErr (AppError
             ''This token has been expired or user doee not exist'' (Some 400))))
      | Some u \<Rightarrow>
          (case save e True
                  (u\<lparr>password := field req ''password'',
                     passwordConfirm := field req ''passwordConfirm'',
                     passwordResetToken := None,
                     passwordResetExpires := None\<rparr>) w of
             (w1, Inl x) \<Rightarrow> (w1, Inl x)
           | (w1, Inr u1) \<Rightarrow> (w1, Inr (createSendToken e w1 u1 200))))"

definition resetPassword :: "env \<Rightarrow> world \<Rightarrow> request \<Rightarrow> world \<times> outcome" where
  "resetPassword = catchAsync resetPassword_body"

text \<open>
  \<^verbatim>\<open>updatePassword\<close> reads \<^verbatim>\<open>req.user._id\<close> and calls a method of the document
  found: with no \<^verbatim>\<open>req.user\<close>, or no document of that id, the property access throws
  a TypeError.
\<close>

definition updatePassword_body :: "env \<Rightarrow> world \<Rightarrow> request \<Rightarrow> world \<times> (exn + outcome)" where
  "updatePassword_body e w req =
     (case req_user req of
        None \<Rightarrow> (w, Inl (Exn ''TypeError''))
      | Some ru \<Rightarrow>
          (case findById (uid ru) (store w) of
             None \<Rightarrow> (w, Inl (Exn ''TypeError''))
           | Some u \<Rightarrow>
               (case correctPassword e (field req ''passwordCurrent'') (password u) of
                  Inl x \<Rightarrow> (w, Inl x)
                | Inr ok \<Rightarrow>
                    if \<not> ok then
                      (w, Inr (nextErr (AppError ''Current password is wrong !'' (Some 401))))
                    else
                      (case save e True
                              (u\<lparr>password := field req ''password'',
                                 passwordConfirm := field req ''passwordConfirm''\<rparr>) w of
                         (w1, Inl x) \<Rightarrow> (w1, Inl x)
                       | (w1, Inr u1) \<Rightarrow> (w1, Inr (createSendToken e w1 u1 200))))))"

definition updatePassword :: "env \<Rightarrow> world \<Rightarrow> request \<Rightarrow> world \<times> outcome" where
  "updatePassword = catchAsync updatePassword_body"

section \<open>Reading an outcome\<close>

text \<open>The handler signalled an operational error with the given status code.\<close>

definition signals :: "nat \<Rightarrow> outcome \<Rightarrow> bool" where
  "signals code out =
     (case out of
        NextErr (Operational err) \<Rightarrow> statusCode err = Some code \<and> isOperational err
      | _ \<Rightarrow> False)"

text \<open>The user record a response body serializes, if any.\<close>

definition body_user :: "json_body \<Rightarrow> user option" where
  "body_user b = (case b of TokenBody s t u \<Rightarrow> Some u | MessageBody s m \<Rightarrow> None)"

text \<open>The token a response body carries, if any.\<close>

definition body_token :: "json_body \<Rightarrow> string option" where
  "body_token b = (case b of TokenBody s t u \<Rightarrow> Some t | MessageBody s m \<Rightarrow> None)"

section \<open>A concrete environment\<close>

text \<open>
  A small instance of the collaborators, on which the handlers are evaluated: hashing
  prefixes a marker, only two tokens verify, the validators want the confirmation to
  repeat the password, and the mail transport fails for one recipient.
\<close>

definition hashed :: "jsval \<Rightarrow> jsval" where
  "hashed v = (case v of JStr s \<Rightarrow> JStr (''#'' @ s) | _ \<Rightarrow> v)"

definition demo_env :: env where
  "demo_env =
     \<lparr>NODE_ENV = ''development'',
      JWT_COOKIE_EXPIRES_IN = 90,
      jwt_sign = (\<lambda>now i. ''jwt-'' @ replicate i (CHR ''i'')),
      jwt_verify = (\<lambda>now t.
         if t = ''jwt-i'' then Inr \<lparr>jwt_id = 1, iat = 100\<rparr>
         else if t = ''jwt-ii'' then Inr \<lparr>jwt_id = 2, iat = 100\<rparr>
         else Inl (Exn ''JsonWebTokenError'')),
      sha256hex = (\<lambda>s. ''h:'' @ s),
      correctPassword = (\<lambda>c h.
         case c of JStr cs \<Rightarrow> Inr (h = JStr (''#'' @ cs)) | _ \<Rightarrow> Inl (Exn ''Error'')),
      changedPasswordAfter = (\<lambda>u t.
         case passwordChangedAt u of None \<Rightarrow> False | Some c \<Rightarrow> t < c),
      randomToken = (\<lambda>n. ''r'' @ replicate n (CHR ''0'')),
      resetWindow = 600000,
      createDoc = (\<lambda>docs p.
         if n_password p \<noteq> n_passwordConfirm p then Inl (Exn ''ValidationError'')
         else Inr \<lparr>uid = Suc (length docs), name = n_name p, email = n_email p,
                   role = n_role p, password = hashed (n_password p),
                   passwordConfirm = JUndefined, passwordChangedAt = None,
                   passwordResetToken = None, passwordResetExpires = None\<rparr>),
      presave = (\<lambda>validate u.
         if validate \<and> password u \<noteq> passwordConfirm u then Inl (Exn ''ValidationError'')
         else if passwordConfirm u = JUndefined then Inr u
         else Inr (u\<lparr>password := hashed (password u), passwordConfirm := JUndefined\<rparr>)),
      deliver = (\<lambda>m.
         if email (rcpt m) = JStr ''bob@example.com'' then Some (Exn ''MailError'')
         else None)\<rparr>"

definition alice :: user where
  "alice =
     \<lparr>uid = 1, name = JStr ''Alice'', email = JStr ''alice@example.com'',
      role = JStr ''user'', password = JStr ''#pass1234'', passwordConfirm = JUndefined,
      passwordChangedAt = None, passwordResetToken = None, passwordResetExpires = None\<rparr>"

text \<open>
  \<open>bob\<close> changed his password after the demo tokens were issued and holds a reset
  token that expires at time 1000.
\<close>

definition bob :: user where
  "bob =
     \<lparr>uid = 2, name = JStr ''Bob'', email = JStr ''bob@example.com'',
      role = JStr ''user'', password = JStr ''#hunter22'', passwordConfirm = JUndefined,
      passwordChangedAt = Some 500, passwordResetToken = Some ''h:reset-bob'',
      passwordResetExpires = Some 1000\<rparr>"

definition demo_world :: world where
  "demo_world = \<lparr>store = [alice, bob], clock = 1000, rng = 0, outbox = []\<rparr>"

definition demo_req :: request where
  "demo_req =
     \<lparr>protocol = ''http'', host = Some ''127.0.0.1:3000'', authorization = None,
      cookie_jwt = None, body_fields = [], param_token = [], req_user = None\<rparr>"

section \<open>Properties\<close>

lemmas demo_defs = demo_env_def demo_world_def demo_req_def alice_def bob_def hashed_def

subsection \<open>Store lookups\<close>

lemma findOne_None_iff: "findOne P docs = None \<longleftrightarrow> (\<forall>u \<in> set docs. \<not> P u)"
  by (auto simp: findOne_def find_None_iff)

subsection \<open>The middlewares\<close>

text \<open>
  Claim C8. Whatever the cookie, the verifier and the store return, \<^verbatim>\<open>isLoggedIn\<close>
  ends in a plain \<^verbatim>\<open>next()\<close>: never \<^verbatim>\<open>next(err)\<close>, the state and \<^verbatim>\<open>req.user\<close>
  untouched. It sets \<^verbatim>\<open>res.locals.user\<close> to a user exactly when the cookie is a
  non-empty token that verifies, the user of the token's id is found, and that user
  did not change the password after the token was issued.
\<close>

theorem isLoggedIn_never_signals_error:
  "(\<exists>lu. isLoggedIn e w req = (w, Next (req_user req) lu)) \<and>
   (\<forall>err. snd (isLoggedIn e w req) \<noteq> NextErr err) \<and>
   (\<forall>u. isLoggedIn e w req = (w, Next (req_user req) (Some u)) \<longleftrightarrow>
      (\<exists>t d. cookie_jwt req = Some t \<and> t \<noteq> [] \<and>
             jwt_verify e (clock w) t = Inr d \<and>
             findById (jwt_id d) (store w) = Some u \<and>
             \<not> changedPasswordAfter e u (iat d)))"
  by (auto simp: isLoggedIn_def truthyS_def render_def split: option.splits sum.splits)

text \<open>
  On the concrete store: a valid cookie of \<open>alice\<close> attaches her; a valid cookie of
  \<open>bob\<close>, who changed his password since, passes through with nothing attached.
\<close>

theorem isLoggedIn_never_signals_error_witness:
  "isLoggedIn demo_env demo_world (demo_req\<lparr>cookie_jwt := Some ''jwt-i''\<rparr>)
     = (demo_world, Next None (Some alice)) \<and>
   isLoggedIn demo_env demo_world (demo_req\<lparr>cookie_jwt := Some ''jwt-ii''\<rparr>)
     = (demo_world, Next None None)"
proof -
  let ?r = "demo_req\<lparr>cookie_jwt := Some ''jwt-i''\<rparr>"
  let ?r2 = "demo_req\<lparr>cookie_jwt := Some ''jwt-ii''\<rparr>"
  have "\<exists>t d. cookie_jwt ?r = Some t \<and> t \<noteq> [] \<and>
             jwt_verify demo_env (clock demo_world) t = Inr d \<and>
             findById (jwt_id d) (store demo_world) = Some alice \<and>
             \<not> changedPasswordAfter demo_env alice (iat d)"
    by (simp add: demo_defs findById_def findOne_def)
  then have a: "isLoggedIn demo_env demo_world ?r = (demo_world, Next (req_user ?r) (Some alice))"
    using isLoggedIn_never_signals_error [of demo_env demo_world ?r] by blast
  have b: "isLoggedIn demo_env demo_world ?r2 = (demo_world, Next None None)"
    by (simp add: isLoggedIn_def truthyS_def render_def demo_defs findById_def findOne_def)
  from a b show ?thesis by (simp add: demo_req_def)
qed

text \<open>
  Claim C2, as stated, fails where the token does not verify: \<^verbatim>\<open>protect\<close> builds no
  operational error there. The verifier's own error is thrown and forwarded by
  \<^verbatim>\<open>catchAsync\<close>, and it carries no status code.
\<close>

theorem protect_unverified_token_counterexample:
  "protect_token (demo_req\<lparr>cookie_jwt := Some ''forged''\<rparr>) = Some ''forged'' \<and>
   jwt_verify demo_env (clock demo_world) ''forged'' = Inl (Exn ''JsonWebTokenError'') \<and>
   protect demo_env demo_world (demo_req\<lparr>cookie_jwt := Some ''forged''\<rparr>)
     = (demo_world, NextErr (Thrown (Exn ''JsonWebTokenError''))) \<and>
   \<not> signals 401 (snd (protect demo_env demo_world (demo_req\<lparr>cookie_jwt := Some ''forged''\<rparr>)))"
  by (simp add: protect_def catchAsync_def protect_body_def protect_token_def truthyS_def
      render_def signals_def demo_defs)

text \<open>\<^verbatim>\<open>protect\<close>, with the adapter unfolded.\<close>

lemma protect_cases:
  "protect e w req =
     (if \<not> truthyS (protect_token req) then
        (w, NextErr (Operational (AppError ''Authorization failed !. You are not log in !'' (Some 401))))
      else case jwt_verify e (clock w) (render (protect_token req)) of
        Inl x \<Rightarrow> (w, NextErr (Thrown x))
      | Inr d \<Rightarrow>
          (case findById (jwt_id d) (store w) of
             None \<Rightarrow> (w, NextErr (Operational (AppError
                ''The user belonging to this token no longer exist !'' (Some 401))))
           | Some u \<Rightarrow>
               if changedPasswordAfter e u (iat d) then
                 (w, NextErr (Operational (AppError
                    ''User recently has changed password, please login again !'' (Some 401))))
               else (w, Next (Some u) (Some u))))"
  by (simp add: protect_def catchAsync_def protect_body_def nextErr_def Let_def
      split: sum.splits option.splits)

text \<open>
  Claim C2, amended. \<^verbatim>\<open>protect\<close> signals a 401 operational error exactly when no
  token is found, or the token verifies and the user of its id does not exist, or the
  token verifies and that user changed the password after the token was issued. A
  token that fails verification makes it forward the verifier's error as thrown. In
  the remaining case it attaches the user to \<^verbatim>\<open>req.user\<close> and \<^verbatim>\<open>res.locals.user\<close> and
  calls \<^verbatim>\<open>next()\<close>. It never writes to the state.
\<close>

theorem protect_401_exactly:
  "(signals 401 (snd (protect e w req)) \<longleftrightarrow>
      (\<not> truthyS (protect_token req) \<or>
       (\<exists>t d. protect_token req = Some t \<and> jwt_verify e (clock w) t = Inr d \<and>
          (findById (jwt_id d) (store w) = None \<or>
           (\<exists>u. findById (jwt_id d) (store w) = Some u \<and>
                changedPasswordAfter e u (iat d)))))) \<and>
   (\<forall>t x. protect_token req = Some t \<and> t \<noteq> [] \<and> jwt_verify e (clock w) t = Inl x \<longrightarrow>
      protect e w req = (w, NextErr (Thrown x))) \<and>
   (\<forall>t d u. protect_token req = Some t \<and> t \<noteq> [] \<and> jwt_verify e (clock w) t = Inr d \<and>
      findById (jwt_id d) (store w) = Some u \<and> \<not> changedPasswordAfter e u (iat d) \<longrightarrow>
      protect e w req = (w, Next (Some u) (Some u))) \<and>
   fst (protect e w req) = w"
  unfolding protect_cases
  by (auto simp: signals_def AppError_def truthyS_def render_def
      split: option.splits sum.splits)

lemma demo_token_bearer:
  "protect_token (demo_req\<lparr>authorization := Some ''Bearer jwt-ii''\<rparr>) = Some ''jwt-ii''"
  "protect_token (demo_req\<lparr>authorization := Some ''Bearer jwt-i''\<rparr>) = Some ''jwt-i''"
  "protect_token (demo_req\<lparr>cookie_jwt := Some ''forged''\<rparr>) = Some ''forged''"
  by (simp_all add: protect_token_def truthyS_def render_def startsWith_def at_def demo_req_def)

text \<open>
  On the concrete store: \<open>bob\<close>'s token is refused with 401 (password changed),
  \<open>alice\<close>'s token lets her through, a forged token ends in the verifier's error.
\<close>

theorem protect_401_exactly_witness:
  "signals 401 (snd (protect demo_env demo_world
      (demo_req\<lparr>authorization := Some ''Bearer jwt-ii''\<rparr>))) \<and>
   protect demo_env demo_world (demo_req\<lparr>authorization := Some ''Bearer jwt-i''\<rparr>)
     = (demo_world, Next (Some alice) (Some alice)) \<and>
   protect demo_env demo_world (demo_req\<lparr>cookie_jwt := Some ''forged''\<rparr>)
     = (demo_world, NextErr (Thrown (Exn ''JsonWebTokenError'')))"
proof -
  let ?bob = "demo_req\<lparr>authorization := Some ''Bearer jwt-ii''\<rparr>"
  let ?alice = "demo_req\<lparr>authorization := Some ''Bearer jwt-i''\<rparr>"
  let ?forged = "demo_req\<lparr>cookie_jwt := Some ''forged''\<rparr>"
  have "\<exists>t d. protect_token ?bob = Some t \<and> jwt_verify demo_env (clock demo_world) t = Inr d \<and>
          (findById (jwt_id d) (store demo_world) = None \<or>
           (\<exists>u. findById (jwt_id d) (store demo_world) = Some u \<and>
                changedPasswordAfter demo_env u (iat d)))"
    by (simp add: demo_token_bearer) (simp add: demo_defs findById_def findOne_def)
  then have a: "signals 401 (snd (protect demo_env demo_world ?bob))"
    using protect_401_exactly [of demo_env demo_world ?bob] by blast
  have "protect_token ?alice = Some ''jwt-i'' \<and> ''jwt-i'' \<noteq> [] \<and>
      jwt_verify demo_env (clock demo_world) ''jwt-i'' = Inr \<lparr>jwt_id = 1, iat = 100\<rparr> \<and>
      findById (jwt_id \<lparr>jwt_id = 1, iat = 100\<rparr>) (store demo_world) = Some alice \<and>
      \<not> changedPasswordAfter demo_env alice (iat \<lparr>jwt_id = 1, iat = 100\<rparr>)"
    by (simp add: demo_token_bearer) (simp add: demo_defs findById_def findOne_def)
  then have b: "protect demo_env demo_world ?alice = (demo_world, Next (Some alice) (Some alice))"
    using protect_401_exactly [of demo_env demo_world ?alice] by blast
  have "protect_token ?forged = Some ''forged'' \<and> ''forged'' \<noteq> [] \<and>
      jwt_verify demo_env (clock demo_world) ''forged'' = Inl (Exn ''JsonWebTokenError'')"
    by (simp add: demo_token_bearer) (simp add: demo_defs)
  then have c: "protect demo_env demo_world ?forged
      = (demo_world, NextErr (Thrown (Exn ''JsonWebTokenError'')))"
    using protect_401_exactly [of demo_env demo_world ?forged] by blast
  from a b c show ?thesis by simp
qed

text \<open>
  Claim C10. When the Authorization header starts with \<^verbatim>\<open>Bearer\<close>, the token of
  \<^verbatim>\<open>protect\<close> is the second space-separated piece of the header, the result does not
  depend on the \<^verbatim>\<open>jwt\<close> cookie, and a header with no (or an empty) second piece is
  answered with 401 whatever the cookie holds.
\<close>

theorem protect_header_precedence:
  "authorization req = Some h \<Longrightarrow> startsWith h ''Bearer'' \<Longrightarrow>
     protect_token (req\<lparr>cookie_jwt := c\<rparr>) = at (split_sp h) 1 \<and>
     protect e w (req\<lparr>cookie_jwt := c\<rparr>) = protect e w (req\<lparr>cookie_jwt := c'\<rparr>) \<and>
     (\<not> truthyS (at (split_sp h) 1) \<longrightarrow>
        protect e w (req\<lparr>cookie_jwt := c\<rparr>) =
          (w, NextErr (Operational
                (AppError ''Authorization failed !. You are not log in !'' (Some 401)))))"
proof -
  assume h: "authorization req = Some h" "startsWith h ''Bearer''"
  then have ne: "h \<noteq> []" by (auto simp: startsWith_def)
  have tok: "\<And>k. protect_token (req\<lparr>cookie_jwt := k\<rparr>) = at (split_sp h) 1"
    using h ne by (simp add: protect_token_def truthyS_def render_def)
  show ?thesis
    by (simp add: protect_cases tok)
qed

text \<open>
  The header \<^verbatim>\<open>Bearer\<close> alone is refused with 401 although the request carries a
  cookie that, without the header, lets \<open>alice\<close> through.
\<close>

theorem protect_header_precedence_witness:
  "protect demo_env demo_world
      (demo_req\<lparr>authorization := Some ''Bearer'', cookie_jwt := Some ''jwt-i''\<rparr>)
     = (demo_world, NextErr (Operational
          (AppError ''Authorization failed !. You are not log in !'' (Some 401)))) \<and>
   protect demo_env demo_world (demo_req\<lparr>cookie_jwt := Some ''jwt-i''\<rparr>)
     = (demo_world, Next (Some alice) (Some alice))"
proof -
  let ?r = "demo_req\<lparr>authorization := Some ''Bearer''\<rparr>"
  have 1: "authorization ?r = Some ''Bearer''" by simp
  have 2: "startsWith ''Bearer'' ''Bearer''" by (simp add: startsWith_def)
  have 3: "\<not> truthyS (at (split_sp ''Bearer'') 1)" by (simp add: at_def truthyS_def)
  have a: "protect demo_env demo_world (?r\<lparr>cookie_jwt := Some ''jwt-i''\<rparr>)
     = (demo_world, NextErr (Operational
          (AppError ''Authorization failed !. You are not log in !'' (Some 401))))"
    using protect_header_precedence [OF 1 2, of "Some ''jwt-i''" demo_env demo_world] 3 by blast
  have b: "protect demo_env demo_world (demo_req\<lparr>cookie_jwt := Some ''jwt-i''\<rparr>)
     = (demo_world, Next (Some alice) (Some alice))"
    by (simp add: protect_cases protect_token_def truthyS_def render_def demo_defs
        findById_def findOne_def)
  from a b show ?thesis by simp
qed

subsection \<open>The password handlers\<close>

text \<open>
  Claim C3. When no stored user has both a reset-token hash equal to the hash of the
  request's token and an expiry strictly greater than the current time,
  \<^verbatim>\<open>resetPassword\<close> signals a 400 operational error and returns the state as it was:
  no password and no reset field is written.
\<close>

theorem resetPassword_rejects_unmatched_token:
  "\<not> (\<exists>u \<in> set (store w).
         passwordResetToken u = Some (sha256hex e (param_token req)) \<and>
         (\<exists>t. passwordResetExpires u = Some t \<and> clock w < t)) \<Longrightarrow>
   resetPassword e w req =
     (w, NextErr (Operational
           (AppError ''This token has been expired or user doee not exist'' (Some 400)))) \<and>
   signals 400 (snd (resetPassword e w req))"
proof -
  assume a: "\<not> (\<exists>u \<in> set (store w).
         passwordResetToken u = Some (sha256hex e (param_token req)) \<and>
         (\<exists>t. passwordResetExpires u = Some t \<and> clock w < t))"
  have "\<forall>u \<in> set (store w). \<not> reset_match (sha256hex e (param_token req)) (clock w) u"
  proof
    fix u assume "u \<in> set (store w)"
    with a show "\<not> reset_match (sha256hex e (param_token req)) (clock w) u"
      by (cases "passwordResetExpires u") (auto simp: reset_match_def)
  qed
  then have "findOne (reset_match (sha256hex e (param_token req)) (clock w)) (store w) = None"
    by (simp add: findOne_None_iff)
  then show ?thesis
    by (simp add: resetPassword_def catchAsync_def resetPassword_body_def nextErr_def
        signals_def AppError_def)
qed

text \<open>
  \<open>bob\<close>'s reset token has the right hash, and expires at the very time of the
  request: not strictly later, so the request is refused and nothing changes.
\<close>

theorem resetPassword_rejects_unmatched_token_witness:
  "resetPassword demo_env demo_world (demo_req\<lparr>param_token := ''reset-bob''\<rparr>) =
     (demo_world, NextErr (Operational
        (AppError ''This token has been expired or user doee not exist'' (Some 400)))) \<and>
   passwordResetToken bob = Some (sha256hex demo_env ''reset-bob'') \<and>
   passwordResetExpires bob = Some (clock demo_world)"
proof -
  let ?r = "demo_req\<lparr>param_token := ''reset-bob''\<rparr>"
  have "\<not> (\<exists>u \<in> set (store demo_world).
         passwordResetToken u = Some (sha256hex demo_env (param_token ?r)) \<and>
         (\<exists>t. passwordResetExpires u = Some t \<and> clock demo_world < t))"
    by (simp add: demo_defs)
  from resetPassword_rejects_unmatched_token [OF this]
  show ?thesis by (simp add: demo_defs)
qed

text \<open>\<^verbatim>\<open>updatePassword\<close>, with the adapter and the save unfolded.\<close>

lemma updatePassword_cases:
  "updatePassword e w req =
     (case req_user req of
        None \<Rightarrow> (w, NextErr (Thrown (Exn ''TypeError'')))
      | Some ru \<Rightarrow>
          (case findById (uid ru) (store w) of
             None \<Rightarrow> (w, NextErr (Thrown (Exn ''TypeError'')))
           | Some u \<Rightarrow>
               (case correctPassword e (field req ''passwordCurrent'') (password u) of
                  Inl x \<Rightarrow> (w, NextErr (Thrown x))
                | Inr ok \<Rightarrow>
                    if \<not> ok then
                      (w, NextErr (Operational (AppError ''Current password is wrong !'' (Some 401))))
                    else
                      (case presave e True
                              (u\<lparr>password := field req ''password'',
                                 passwordConfirm := field req ''passwordConfirm''\<rparr>) of
                         Inl x \<Rightarrow> (w, NextErr (Thrown x))
                       | Inr u1 \<Rightarrow>
                           (w\<lparr>store := map (\<lambda>d. if uid d = uid u1 then u1 else d) (store w)\<rparr>,
                            createSendToken e
                              (w\<lparr>store := map (\<lambda>d. if uid d = uid u1 then u1 else d) (store w)\<rparr>)
                              u1 200)))))"
  by (simp add: updatePassword_def catchAsync_def updatePassword_body_def nextErr_def save_def
      split: sum.splits option.splits)

text \<open>
  Claim C4, as stated, fails in its last part: the current password verifies, yet the
  password is not updated and no token is issued, because \<^verbatim>\<open>save()\<close> runs the
  validators (as the comment on the call says) and they reject the new password.
\<close>

theorem updatePassword_always_updates_counterexample:
  "req_user (demo_req\<lparr>req_user := Some alice, body_fields :=
       [(''passwordCurrent'', JStr ''pass1234''), (''password'', JStr ''newpass12''),
        (''passwordConfirm'', JStr ''newpass21'')]\<rparr>) = Some alice \<and>
   findById (uid alice) (store demo_world) = Some alice \<and>
   correctPassword demo_env (JStr ''pass1234'') (password alice) = Inr True \<and>
   updatePassword demo_env demo_world
     (demo_req\<lparr>req_user := Some alice, body_fields :=
       [(''passwordCurrent'', JStr ''pass1234''), (''password'', JStr ''newpass12''),
        (''passwordConfirm'', JStr ''newpass21'')]\<rparr>)
     = (demo_world, NextErr (Thrown (Exn ''ValidationError'')))"
  by (simp add: updatePassword_cases field_def findById_def findOne_def demo_defs)

text \<open>
  Claim C4, amended. For a request of a user that the store still holds: when the
  current password does not verify, \<^verbatim>\<open>updatePassword\<close> signals a 401 operational
  error and leaves the state as it was; when it verifies and the store accepts the
  save, the saved document replaces the stored one and a 200 response carries a newly
  signed token; when it verifies and the save is rejected, the rejection is forwarded,
  the state is as it was and no token is issued.
\<close>

theorem updatePassword_contract:
  "req_user req = Some ru \<Longrightarrow> findById (uid ru) (store w) = Some u \<Longrightarrow>
   (correctPassword e (field req ''passwordCurrent'') (password u) = Inr False \<longrightarrow>
      updatePassword e w req =
        (w, NextErr (Operational (AppError ''Current password is wrong !'' (Some 401)))) \<and>
      signals 401 (snd (updatePassword e w req))) \<and>
   (\<forall>u1. correctPassword e (field req ''passwordCurrent'') (password u) = Inr True \<and>
      presave e True (u\<lparr>password := field req ''password'',
                         passwordConfirm := field req ''passwordConfirm''\<rparr>) = Inr u1 \<longrightarrow>
      (\<exists>r. updatePassword e w req =
             (w\<lparr>store := map (\<lambda>d. if uid d = uid u1 then u1 else d) (store w)\<rparr>, Respond r) \<and>
           status r = 200 \<and>
           body r = TokenBody ''success'' (jwt_sign e (clock w) (uid u1))
                      (u1\<lparr>password := JUndefined\<rparr>))) \<and>
   (\<forall>x. correctPassword e (field req ''passwordCurrent'') (password u) = Inr True \<and>
      presave e True (u\<lparr>password := field req ''password'',
                         passwordConfirm := field req ''passwordConfirm''\<rparr>) = Inl x \<longrightarrow>
      updatePassword e w req = (w, NextErr (Thrown x)))"
  by (simp add: updatePassword_cases signals_def AppError_def createSendToken_def
      signToken_def Let_def)

text \<open>
  \<open>alice\<close> with a wrong current password gets 401 and an unchanged store; with the
  right one her stored password becomes the hash of the new one and she gets a token.
\<close>

theorem updatePassword_contract_witness:
  "updatePassword demo_env demo_world
     (demo_req\<lparr>req_user := Some alice, body_fields :=
       [(''passwordCurrent'', JStr ''wrong-one''), (''password'', JStr ''newpass12''),
        (''passwordConfirm'', JStr ''newpass12'')]\<rparr>)
     = (demo_world, NextErr (Operational (AppError ''Current password is wrong !'' (Some 401)))) \<and>
   (\<exists>r. updatePassword demo_env demo_world
     (demo_req\<lparr>req_user := Some alice, body_fields :=
       [(''passwordCurrent'', JStr ''pass1234''), (''password'', JStr ''newpass12''),
        (''passwordConfirm'', JStr ''newpass12'')]\<rparr>)
     = (demo_world\<lparr>store := [alice\<lparr>password := JStr ''#newpass12''\<rparr>, bob]\<rparr>, Respond r) \<and>
     status r = 200 \<and> body_token (body r) = Some ''jwt-i'')"
proof -
  let ?bad = "demo_req\<lparr>req_user := Some alice, body_fields :=
       [(''passwordCurrent'', JStr ''wrong-one''), (''password'', JStr ''newpass12''),
        (''passwordConfirm'', JStr ''newpass12'')]\<rparr>"
  let ?good = "demo_req\<lparr>req_user := Some alice, body_fields :=
       [(''passwordCurrent'', JStr ''pass1234''), (''password'', JStr ''newpass12''),
        (''passwordConfirm'', JStr ''newpass12'')]\<rparr>"
  let ?u1 = "alice\<lparr>password := JStr ''#newpass12''\<rparr>"
  have f: "findById (uid alice) (store demo_world) = Some alice"
    by (simp add: findById_def findOne_def demo_defs)
  have 1: "req_user ?bad = Some alice" by simp
  have 2: "correctPassword demo_env (field ?bad ''passwordCurrent'') (password alice) = Inr False"
    by (simp add: field_def demo_defs)
  have a: "updatePassword demo_env demo_world ?bad
     = (demo_world, NextErr (Operational (AppError ''Current password is wrong !'' (Some 401))))"
    using updatePassword_contract [OF 1 f, of demo_env] 2 by blast
  have 3: "req_user ?good = Some alice" by simp
  have 4: "correctPassword demo_env (field ?good ''passwordCurrent'') (password alice) = Inr True \<and>
      presave demo_env True (alice\<lparr>password := field ?good ''password'',
          passwordConfirm := field ?good ''passwordConfirm''\<rparr>) = Inr ?u1"
    by (simp add: field_def demo_defs)
  have "\<exists>r. updatePassword demo_env demo_world ?good =
         (demo_world\<lparr>store := map (\<lambda>d. if uid d = uid ?u1 then ?u1 else d) (store demo_world)\<rparr>,
          Respond r) \<and>
       status r = 200 \<and>
       body r = TokenBody ''success'' (jwt_sign demo_env (clock demo_world) (uid ?u1))
                  (?u1\<lparr>password := JUndefined\<rparr>)"
    using updatePassword_contract [OF 3 f, of demo_env] 4 by blast
  then obtain r where r: "updatePassword demo_env demo_world ?good =
         (demo_world\<lparr>store := map (\<lambda>d. if uid d = uid ?u1 then ?u1 else d) (store demo_world)\<rparr>,
          Respond r)" "status r = 200"
       "body r = TokenBody ''success'' (jwt_sign demo_env (clock demo_world) (uid ?u1))
                  (?u1\<lparr>password := JUndefined\<rparr>)"
    by blast
  have st: "map (\<lambda>d. if uid d = uid ?u1 then ?u1 else d) (store demo_world) = [?u1, bob]"
    by (simp add: demo_defs)
  have tk: "jwt_sign demo_env (clock demo_world) (uid ?u1) = ''jwt-i''"
    by (simp add: demo_defs)
  from r st tk have b: "\<exists>r. updatePassword demo_env demo_world ?good
     = (demo_world\<lparr>store := [?u1, bob]\<rparr>, Respond r) \<and>
     status r = 200 \<and> body_token (body r) = Some ''jwt-i''"
    by (simp add: body_token_def)
  from a b show ?thesis by blast
qed

text \<open>\<^verbatim>\<open>login\<close>, with the adapter unfolded.\<close>

lemma login_cases:
  "login e w req =
     (if \<not> truthy (field req ''email'') \<or> \<not> truthy (field req ''password'') then
        (w, NextErr (Operational (AppError ''Please provide email and password !'' (Some 400))))
      else
        (case findOne (\<lambda>u. email u = field req ''email'') (store w) of
           None \<Rightarrow> (w, NextErr (Operational (AppError ''Incorrect email or password !'' (Some 401))))
         | Some u \<Rightarrow>
             (case correctPassword e (field req ''password'') (password u) of
                Inl x \<Rightarrow> (w, NextErr (Thrown x))
              | Inr ok \<Rightarrow>
                  if \<not> ok then
                    (w, NextErr (Operational (AppError ''Incorrect email or password !'' (Some 401))))
                  else (w, createSendToken e w u 200))))"
  by (simp add: login_def catchAsync_def login_body_def nextErr_def Let_def
      split: sum.splits option.splits)

text \<open>
  Claim C5. \<^verbatim>\<open>login\<close> signals a 400 operational error when the email or the password
  is missing from the body (and, more generally, when either is falsy, as an empty
  string is). With both supplied, it signals a 401 operational error when no user has
  that email or when the password does not verify against the user found, and it
  answers 200 with a token signed for the user's id when the password verifies. The
  state is never written.
\<close>

theorem login_contract:
  "(field req ''email'' = JUndefined \<or> field req ''password'' = JUndefined \<longrightarrow>
      login e w req =
        (w, NextErr (Operational (AppError ''Please provide email and password !'' (Some 400)))) \<and>
      signals 400 (snd (login e w req))) \<and>
   (\<not> truthy (field req ''email'') \<or> \<not> truthy (field req ''password'') \<longrightarrow>
      login e w req =
        (w, NextErr (Operational (AppError ''Please provide email and password !'' (Some 400))))) \<and>
   (truthy (field req ''email'') \<and> truthy (field req ''password'') \<and>
    (\<forall>u \<in> set (store w). email u \<noteq> field req ''email'') \<longrightarrow>
      login e w req =
        (w, NextErr (Operational (AppError ''Incorrect email or password !'' (Some 401)))) \<and>
      signals 401 (snd (login e w req))) \<and>
   (\<forall>u. truthy (field req ''email'') \<and> truthy (field req ''password'') \<and>
      findOne (\<lambda>u. email u = field req ''email'') (store w) = Some u \<and>
      correctPassword e (field req ''password'') (password u) = Inr False \<longrightarrow>
      login e w req =
        (w, NextErr (Operational (AppError ''Incorrect email or password !'' (Some 401)))) \<and>
      signals 401 (snd (login e w req))) \<and>
   (\<forall>u. truthy (field req ''email'') \<and> truthy (field req ''password'') \<and>
      findOne (\<lambda>u. email u = field req ''email'') (store w) = Some u \<and>
      correctPassword e (field req ''password'') (password u) = Inr True \<longrightarrow>
      (\<exists>r. login e w req = (w, Respond r) \<and> status r = 200 \<and>
           body r = TokenBody ''success'' (jwt_sign e (clock w) (uid u))
                      (u\<lparr>password := JUndefined\<rparr>)))"
proof -
  have none: "(\<forall>u \<in> set (store w). email u \<noteq> field req ''email'') \<Longrightarrow>
      findOne (\<lambda>u. email u = field req ''email'') (store w) = None"
    by (simp add: findOne_None_iff)
  show ?thesis
    by (auto simp: login_cases signals_def AppError_def createSendToken_def signToken_def
        Let_def none)
qed

text \<open>
  Four requests on the concrete store: no email field (400), an email nobody has
  (401), \<open>alice\<close> with a wrong password (401), \<open>alice\<close> with her password (200 and
  the token signed for her id).
\<close>

theorem login_contract_witness:
  "login demo_env demo_world (demo_req\<lparr>body_fields := [(''password'', JStr ''pass1234'')]\<rparr>)
     = (demo_world,
        NextErr (Operational (AppError ''Please provide email and password !'' (Some 400)))) \<and>
   login demo_env demo_world (demo_req\<lparr>body_fields :=
       [(''email'', JStr ''carol@example.com''), (''password'', JStr ''pass1234'')]\<rparr>)
     = (demo_world,
        NextErr (Operational (AppError ''Incorrect email or password !'' (Some 401)))) \<and>
   login demo_env demo_world (demo_req\<lparr>body_fields :=
       [(''email'', JStr ''alice@example.com''), (''password'', JStr ''guess'')]\<rparr>)
     = (demo_world,
        NextErr (Operational (AppError ''Incorrect email or password !'' (Some 401)))) \<and>
   (\<exists>r. login demo_env demo_world (demo_req\<lparr>body_fields :=
       [(''email'', JStr ''alice@example.com''), (''password'', JStr ''pass1234'')]\<rparr>)
     = (demo_world, Respond r) \<and> status r = 200 \<and> body_token (body r) = Some ''jwt-i'')"
proof -
  let ?missing = "demo_req\<lparr>body_fields := [(''password'', JStr ''pass1234'')]\<rparr>"
  let ?unknown = "demo_req\<lparr>body_fields :=
       [(''email'', JStr ''carol@example.com''), (''password'', JStr ''pass1234'')]\<rparr>"
  let ?wrong = "demo_req\<lparr>body_fields :=
       [(''email'', JStr ''alice@example.com''), (''password'', JStr ''guess'')]\<rparr>"
  let ?right = "demo_req\<lparr>body_fields :=
       [(''email'', JStr ''alice@example.com''), (''password'', JStr ''pass1234'')]\<rparr>"
  have "field ?missing ''email'' = JUndefined \<or> field ?missing ''password'' = JUndefined"
    by (simp add: field_def)
  then have a: "login demo_env demo_world ?missing = (demo_world,
        NextErr (Operational (AppError ''Please provide email and password !'' (Some 400))))"
    using login_contract [of ?missing demo_env demo_world] by blast
  have "truthy (field ?unknown ''email'') \<and> truthy (field ?unknown ''password'') \<and>
      (\<forall>u \<in> set (store demo_world). email u \<noteq> field ?unknown ''email'')"
    by (simp add: field_def demo_defs)
  then have b: "login demo_env demo_world ?unknown = (demo_world,
        NextErr (Operational (AppError ''Incorrect email or password !'' (Some 401))))"
    using login_contract [of ?unknown demo_env demo_world] by blast
  have "truthy (field ?wrong ''email'') \<and> truthy (field ?wrong ''password'') \<and>
      findOne (\<lambda>u. email u = field ?wrong ''email'') (store demo_world) = Some alice \<and>
      correctPassword demo_env (field ?wrong ''password'') (password alice) = Inr False"
    by (simp add: field_def findOne_def demo_defs)
  then have c: "login demo_env demo_world ?wrong = (demo_world,
        NextErr (Operational (AppError ''Incorrect email or password !'' (Some 401))))"
    using login_contract [of ?wrong demo_env demo_world] by blast
  have "truthy (field ?right ''email'') \<and> truthy (field ?right ''password'') \<and>
      findOne (\<lambda>u. email u = field ?right ''email'') (store demo_world) = Some alice \<and>
      correctPassword demo_env (field ?right ''password'') (password alice) = Inr True"
    by (simp add: field_def findOne_def demo_defs)
  then have "\<exists>r. login demo_env demo_world ?right = (demo_world, Respond r) \<and> status r = 200 \<and>
           body r = TokenBody ''success'' (jwt_sign demo_env (clock demo_world) (uid alice))
                      (alice\<lparr>password := JUndefined\<rparr>)"
    using login_contract [of ?right demo_env demo_world] by blast
  then obtain r where r: "login demo_env demo_world ?right = (demo_world, Respond r)"
      "status r = 200"
      "body r = TokenBody ''success'' (jwt_sign demo_env (clock demo_world) (uid alice))
                      (alice\<lparr>password := JUndefined\<rparr>)"
    by blast
  have "jwt_sign demo_env (clock demo_world) (uid alice) = ''jwt-i''"
    by (simp add: demo_defs)
  with r have d: "\<exists>r. login demo_env demo_world ?right = (demo_world, Respond r) \<and>
      status r = 200 \<and> body_token (body r) = Some ''jwt-i''"
    by (simp add: body_token_def)
  from a b c d show ?thesis by blast
qed

text \<open>
  Claim C6. When no stored user has the email of the request, \<^verbatim>\<open>forgotPassword\<close>
  signals a 404 operational error and returns the state as it was: no random token
  was drawn, no document was written, no mail was sent.
\<close>

theorem forgotPassword_unknown_email:
  "\<forall>u \<in> set (store w). email u \<noteq> field req ''email'' \<Longrightarrow>
   forgotPassword e w req =
     (w, NextErr (Operational
           (AppError ''There is no user with that email address !'' (Some 404)))) \<and>
   signals 404 (snd (forgotPassword e w req)) \<and>
   rng (fst (forgotPassword e w req)) = rng w \<and>
   store (fst (forgotPassword e w req)) = store w \<and>
   outbox (fst (forgotPassword e w req)) = outbox w"
proof -
  assume "\<forall>u \<in> set (store w). email u \<noteq> field req ''email''"
  then have "findOne (\<lambda>u. email u = field req ''email'') (store w) = None"
    by (simp add: findOne_None_iff)
  then show ?thesis
    by (simp add: forgotPassword_def catchAsync_def forgotPassword_body_def nextErr_def
        signals_def AppError_def)
qed

text \<open>
  An unknown address leaves the concrete state as it was; a known one (\<open>alice\<close>)
  draws a token.
\<close>

theorem forgotPassword_unknown_email_witness:
  "forgotPassword demo_env demo_world
      (demo_req\<lparr>body_fields := [(''email'', JStr ''carol@example.com'')]\<rparr>)
     = (demo_world, NextErr (Operational
          (AppError ''There is no user with that email address !'' (Some 404)))) \<and>
   rng (fst (forgotPassword demo_env demo_world
      (demo_req\<lparr>body_fields := [(''email'', JStr ''alice@example.com'')]\<rparr>))) = 1"
proof -
  let ?r = "demo_req\<lparr>body_fields := [(''email'', JStr ''carol@example.com'')]\<rparr>"
  have "\<forall>u \<in> set (store demo_world). email u \<noteq> field ?r ''email''"
    by (simp add: field_def demo_defs)
  from forgotPassword_unknown_email [OF this, of demo_env]
  have a: "forgotPassword demo_env demo_world ?r
     = (demo_world, NextErr (Operational
          (AppError ''There is no user with that email address !'' (Some 404))))"
    by blast
  have b: "rng (fst (forgotPassword demo_env demo_world
      (demo_req\<lparr>body_fields := [(''email'', JStr ''alice@example.com'')]\<rparr>))) = 1"
    by (simp add: forgotPassword_def catchAsync_def forgotPassword_body_def
        createPasswordResetToken_def save_def sendMail_def field_def findOne_def
        render_def Let_def demo_defs)
  from a b show ?thesis by simp
qed

subsection \<open>Responses\<close>

text \<open>What \<^verbatim>\<open>createSendToken\<close> writes.\<close>

lemma createSendToken_body:
  "\<exists>r. createSendToken e w u code = Respond r \<and> status r = code \<and>
       body r = TokenBody ''success'' (jwt_sign e (clock w) (uid u)) (u\<lparr>password := JUndefined\<rparr>)"
  by (simp add: createSendToken_def signToken_def Let_def)

lemma createSendToken_hides_password:
  "createSendToken e w u code = Respond r \<Longrightarrow>
     \<exists>v. body_user (body r) = Some v \<and> password v = JUndefined"
  using createSendToken_body [of e w u code] by (auto simp: body_user_def)

text \<open>\<^verbatim>\<open>signup\<close> and \<^verbatim>\<open>resetPassword\<close>, with the adapter and the store calls unfolded.\<close>

lemma signup_cases:
  "signup e w req =
     (case createDoc e (store w) (signup_fields req) of
        Inl x \<Rightarrow> (w, NextErr (Thrown x))
      | Inr u \<Rightarrow>
          (case deliver e \<lparr>kind = Welcome, rcpt = u,
                            url = protocol req @ ''://'' @ render (host req) @ ''/me''\<rparr> of
             Some x \<Rightarrow> (w\<lparr>store := store w @ [u]\<rparr>, NextErr (Thrown x))
           | None \<Rightarrow>
               (w\<lparr>store := store w @ [u],
                  outbox := outbox w @ [\<lparr>kind = Welcome, rcpt = u,
                     url = protocol req @ ''://'' @ render (host req) @ ''/me''\<rparr>]\<rparr>,
                createSendToken e
                  (w\<lparr>store := store w @ [u],
                     outbox := outbox w @ [\<lparr>kind = Welcome, rcpt = u,
                        url = protocol req @ ''://'' @ render (host req) @ ''/me''\<rparr>]\<rparr>)
                  u 201)))"
  by (simp add: signup_def catchAsync_def signup_body_def create_def sendMail_def Let_def
      split: sum.splits option.splits)

lemma resetPassword_cases:
  "resetPassword e w req =
     (case findOne (reset_match (sha256hex e (param_token req)) (clock w)) (store w) of
        None \<Rightarrow> (w, NextErr (Operational (AppError
                   ''This token has been expired or user doee not exist'' (Some 400))))
      | Some u \<Rightarrow>
          (case presave e True
                  (u\<lparr>password := field req ''password'',
                     passwordConfirm := field req ''passwordConfirm'',
                     passwordResetToken := None,
                     passwordResetExpires := None\<rparr>) of
             Inl x \<Rightarrow> (w, NextErr (Thrown x))
           | Inr u1 \<Rightarrow>
               (w\<lparr>store := map (\<lambda>d. if uid d = uid u1 then u1 else d) (store w)\<rparr>,
                createSendToken e
                  (w\<lparr>store := map (\<lambda>d. if uid d = uid u1 then u1 else d) (store w)\<rparr>)
                  u1 200)))"
  by (simp add: resetPassword_def catchAsync_def resetPassword_body_def nextErr_def save_def
      Let_def split: sum.splits option.splits)

text \<open>A response of each of the four handlers that log a user in shows no password.\<close>

lemma signup_hides_password:
  "signup e w req = (w', Respond r) \<Longrightarrow> \<exists>v. body_user (body r) = Some v \<and> password v = JUndefined"
  by (auto simp: signup_cases split: sum.splits option.splits
      dest: createSendToken_hides_password)

lemma login_hides_password:
  "login e w req = (w', Respond r) \<Longrightarrow> \<exists>v. body_user (body r) = Some v \<and> password v = JUndefined"
  by (auto simp: login_cases split: sum.splits option.splits if_splits
      dest: createSendToken_hides_password)

lemma resetPassword_hides_password:
  "resetPassword e w req = (w', Respond r) \<Longrightarrow>
     \<exists>v. body_user (body r) = Some v \<and> password v = JUndefined"
  by (auto simp: resetPassword_cases split: sum.splits option.splits
      dest: createSendToken_hides_password)

lemma updatePassword_hides_password:
  "updatePassword e w req = (w', Respond r) \<Longrightarrow>
     \<exists>v. body_user (body r) = Some v \<and> password v = JUndefined"
  by (auto simp: updatePassword_cases split: sum.splits option.splits if_splits
      dest: createSendToken_hides_password)

text \<open>
  Claim C7. Every response written by \<^verbatim>\<open>signup\<close>, \<^verbatim>\<open>login\<close>, \<^verbatim>\<open>resetPassword\<close> or
  \<^verbatim>\<open>updatePassword\<close> serializes a user record whose password field is undefined: all
  four answer through \<^verbatim>\<open>createSendToken\<close>, which clears the field before it writes
  the body.
\<close>

theorem responses_hide_password:
  "h \<in> {signup, login, resetPassword, updatePassword} \<Longrightarrow>
   h e w req = (w', Respond r) \<Longrightarrow>
   \<exists>v. body_user (body r) = Some v \<and> password v = JUndefined"
proof -
  assume m: "h \<in> {signup, login, resetPassword, updatePassword}"
    and r: "h e w req = (w', Respond r)"
  from m consider "h = signup" | "h = login" | "h = resetPassword" | "h = updatePassword"
    by auto
  then show ?thesis
  proof cases
    case 1
    with r show ?thesis by (simp add: signup_hides_password)
  next
    case 2
    with r show ?thesis by (simp add: login_hides_password)
  next
    case 3
    with r show ?thesis by (simp add: resetPassword_hides_password)
  next
    case 4
    with r show ?thesis by (simp add: updatePassword_hides_password)
  qed
qed

text \<open>
  \<open>alice\<close> logs in: her stored document holds the password hash, the user in the
  response body is hers and holds none.
\<close>

theorem responses_hide_password_witness:
  "\<exists>r v. login demo_env demo_world (demo_req\<lparr>body_fields :=
       [(''email'', JStr ''alice@example.com''), (''password'', JStr ''pass1234'')]\<rparr>)
       = (demo_world, Respond r) \<and>
     body_user (body r) = Some v \<and> password v = JUndefined \<and>
     password alice = JStr ''#pass1234'' \<and> uid v = uid alice"
proof -
  let ?r = "demo_req\<lparr>body_fields :=
       [(''email'', JStr ''alice@example.com''), (''password'', JStr ''pass1234'')]\<rparr>"
  obtain r where r: "createSendToken demo_env demo_world alice 200 = Respond r"
      "body r = TokenBody ''success'' (jwt_sign demo_env (clock demo_world) (uid alice))
         (alice\<lparr>password := JUndefined\<rparr>)"
    using createSendToken_body [of demo_env demo_world alice 200] by blast
  have f1: "field ?r ''email'' = JStr ''alice@example.com''"
      "field ?r ''password'' = JStr ''pass1234''"
    by (simp_all add: field_def)
  have f2: "findOne (\<lambda>u. email u = JStr ''alice@example.com'') (store demo_world) = Some alice"
    by (simp add: findOne_def demo_world_def alice_def bob_def)
  have f3: "correctPassword demo_env (JStr ''pass1234'') (password alice) = Inr True"
    by (simp add: demo_env_def alice_def)
  have l: "login demo_env demo_world ?r = (demo_world, Respond r)"
    by (simp add: login_cases f1 f2 f3 r(1))
  have m: "login \<in> {signup, login, resetPassword, updatePassword}" by simp
  from responses_hide_password [OF m l]
  obtain v where v: "body_user (body r) = Some v" "password v = JUndefined" by blast
  from v(1) r(2) have "uid v = uid alice" by (auto simp: body_user_def)
  moreover have "password alice = JStr ''#pass1234''" by (simp add: alice_def)
  ultimately show ?thesis using l v by blast
qed

text \<open>
  Claim C9. The fields \<^verbatim>\<open>signup\<close> hands to user creation are the body's name, email,
  password, passwordConfirm and role, each as the client sent it. What creation makes
  of them is what joins the collection (a rejection is forwarded and nothing joins), so
  where creation keeps the role it is given, the stored user has the role the request
  asked for.
\<close>

theorem signup_forwards_role:
  "n_role (signup_fields req) = field req ''role'' \<and>
   n_name (signup_fields req) = field req ''name'' \<and>
   n_email (signup_fields req) = field req ''email'' \<and>
   n_password (signup_fields req) = field req ''password'' \<and>
   n_passwordConfirm (signup_fields req) = field req ''passwordConfirm'' \<and>
   (\<forall>x. createDoc e (store w) (signup_fields req) = Inl x \<longrightarrow>
      signup e w req = (w, NextErr (Thrown x))) \<and>
   (\<forall>u. createDoc e (store w) (signup_fields req) = Inr u \<longrightarrow>
      store (fst (signup e w req)) = store w @ [u]) \<and>
   (\<forall>u. createDoc e (store w) (signup_fields req) = Inr u \<and>
      role u = n_role (signup_fields req) \<longrightarrow>
      role (last (store (fst (signup e w req)))) = field req ''role'')"
  by (auto simp: signup_cases signup_fields_def split: option.splits)

text \<open>A signup request with role \<^verbatim>\<open>admin\<close> stores an admin.\<close>

theorem signup_forwards_role_witness:
  "store (fst (signup demo_env demo_world (demo_req\<lparr>body_fields :=
      [(''name'', JStr ''Eve''), (''email'', JStr ''eve@example.com''),
       (''password'', JStr ''pass1234''), (''passwordConfirm'', JStr ''pass1234''),
       (''role'', JStr ''admin'')]\<rparr>)))
     = [alice, bob,
        \<lparr>uid = 3, name = JStr ''Eve'', email = JStr ''eve@example.com'',
         role = JStr ''admin'', password = JStr ''#pass1234'', passwordConfirm = JUndefined,
         passwordChangedAt = None, passwordResetToken = None, passwordResetExpires = None\<rparr>]"
proof -
  let ?r = "demo_req\<lparr>body_fields :=
      [(''name'', JStr ''Eve''), (''email'', JStr ''eve@example.com''),
       (''password'', JStr ''pass1234''), (''passwordConfirm'', JStr ''pass1234''),
       (''role'', JStr ''admin'')]\<rparr>"
  let ?eve = "\<lparr>uid = 3, name = JStr ''Eve'', email = JStr ''eve@example.com'',
         role = JStr ''admin'', password = JStr ''#pass1234'', passwordConfirm = JUndefined,
         passwordChangedAt = None, passwordResetToken = None, passwordResetExpires = None\<rparr>"
  have "createDoc demo_env (store demo_world) (signup_fields ?r) = Inr ?eve"
    by (simp add: signup_fields_def field_def demo_env_def demo_world_def hashed_def)
  then have "store (fst (signup demo_env demo_world ?r)) = store demo_world @ [?eve]"
    using signup_forwards_role [of ?r demo_env demo_world] by blast
  then show ?thesis by (simp add: demo_world_def)
qed

text \<open>
  Claim C1, on the code. When the user is found, the first save is accepted, the mail
  fails and the second save is accepted, \<^verbatim>\<open>forgotPassword\<close> has saved the document
  with both reset fields cleared, and the error it hands to \<^verbatim>\<open>next\<close> is an operational
  error built with the message only: the literal 500 is the second argument of
  \<^verbatim>\<open>next\<close>, not of the error's constructor, so the error carries no status code,
  neither 500 nor any other.
\<close>

theorem forgotPassword_mail_failure:
  "findOne (\<lambda>u. email u = field req ''email'') (store w) = Some u \<Longrightarrow>
   createPasswordResetToken e w u = (resetToken, u1, w1) \<Longrightarrow>
   presave e False u1 = Inr u2 \<Longrightarrow>
   deliver e \<lparr>kind = PasswordReset, rcpt = u2,
              url = protocol req @ ''://'' @ render (host req)
                    @ ''/api/v1/users/resetPassword/'' @ resetToken\<rparr> = Some err \<Longrightarrow>
   presave e False (u2\<lparr>passwordResetToken := None, passwordResetExpires := None\<rparr>) = Inr u4 \<Longrightarrow>
   forgotPassword e w req =
     (w1\<lparr>store := map (\<lambda>d. if uid d = uid u4 then u4 else d)
                    (map (\<lambda>d. if uid d = uid u2 then u2 else d) (store w1))\<rparr>,
      NextErr (Operational
        (AppError ''There was an error sending email, try again !'' None))) \<and>
   (\<forall>code. \<not> signals code (snd (forgotPassword e w req)))"
  by (simp add: forgotPassword_def catchAsync_def forgotPassword_body_def save_def
      sendMail_def nextErr2_def signals_def AppError_def Let_def)

text \<open>
  The mail to \<open>bob\<close> fails: his reset fields end undefined in the store, one random
  token was drawn, and the error's status code is undefined.
\<close>

theorem forgotPassword_mail_failure_witness:
  "forgotPassword demo_env demo_world
      (demo_req\<lparr>body_fields := [(''email'', JStr ''bob@example.com'')]\<rparr>)
     = (demo_world\<lparr>store :=
            [alice, bob\<lparr>passwordResetToken := None, passwordResetExpires := None\<rparr>],
          rng := 1\<rparr>,
        NextErr (Operational
          \<lparr>message = ''There was an error sending email, try again !'',
           statusCode = None, isOperational = True\<rparr>)) \<and>
   \<not> signals 500 (snd (forgotPassword demo_env demo_world
      (demo_req\<lparr>body_fields := [(''email'', JStr ''bob@example.com'')]\<rparr>)))"
proof -
  let ?r = "demo_req\<lparr>body_fields := [(''email'', JStr ''bob@example.com'')]\<rparr>"
  let ?u1 = "bob\<lparr>passwordResetToken := Some ''h:r'', passwordResetExpires := Some 601000\<rparr>"
  let ?w1 = "demo_world\<lparr>rng := 1\<rparr>"
  let ?u4 = "bob\<lparr>passwordResetToken := None, passwordResetExpires := None\<rparr>"
  have 1: "findOne (\<lambda>u. email u = field ?r ''email'') (store demo_world) = Some bob"
    by (simp add: findOne_def field_def demo_defs)
  have 2: "createPasswordResetToken demo_env demo_world bob = (''r'', ?u1, ?w1)"
    by (simp add: createPasswordResetToken_def Let_def demo_env_def demo_world_def)
  have 3: "presave demo_env False ?u1 = Inr ?u1"
    by (simp add: demo_env_def bob_def)
  have 4: "deliver demo_env \<lparr>kind = PasswordReset, rcpt = ?u1,
              url = protocol ?r @ ''://'' @ render (host ?r)
                    @ ''/api/v1/users/resetPassword/'' @ ''r''\<rparr> = Some (Exn ''MailError'')"
    by (simp add: demo_env_def bob_def)
  have 5: "presave demo_env False
      (?u1\<lparr>passwordResetToken := None, passwordResetExpires := None\<rparr>) = Inr ?u4"
    by (simp add: demo_env_def bob_def)
  have st: "map (\<lambda>d. if uid d = uid ?u4 then ?u4 else d)
        (map (\<lambda>d. if uid d = uid ?u1 then ?u1 else d) (store ?w1)) = [alice, ?u4]"
    by (simp add: demo_world_def alice_def bob_def)
  note main = forgotPassword_mail_failure [OF 1 2 3 4 5]
  from main have a: "forgotPassword demo_env demo_world ?r =
     (?w1\<lparr>store := map (\<lambda>d. if uid d = uid ?u4 then ?u4 else d)
                    (map (\<lambda>d. if uid d = uid ?u1 then ?u1 else d) (store ?w1))\<rparr>,
      NextErr (Operational
        (AppError ''There was an error sending email, try again !'' None)))"
    by blast
  from main have b: "\<not> signals 500 (snd (forgotPassword demo_env demo_world ?r))"
    by blast
  from a have "forgotPassword demo_env demo_world ?r =
     (demo_world\<lparr>store := [alice, ?u4], rng := 1\<rparr>,
      NextErr (Operational
        \<lparr>message = ''There was an error sending email, try again !'',
         statusCode = None, isOperational = True\<rparr>))"
    unfolding st by (simp add: AppError_def demo_world_def)
  with b show ?thesis by blast
qed

end
